theory Spec2Isabelle
  imports Complex_Main
begin

section \<open>Data frames\<close>

text \<open>
  A cell holds a value or is null (\<open>None\<close> stands for \<open>None\<close>/\<open>NaN\<close>). The type of the
  values is a parameter: the analysis only tests values for equality and for being null.

  A row is its \<open>Primary_Key\<close> (a string built by the caller) and its cells in the order of
  the non-key columns. A data frame is its column labels, as \<open>df.columns.tolist()\<close> gives
  them, and its rows in order.
\<close>

type_synonym 'v cell = "'v option"

type_synonym 'v row = "string \<times> 'v cell list"

record 'v dataframe =
  columns :: "string list"
  rows :: "'v row list"

datatype error = ValueError string | KeyError | UnboundLocalError

text \<open>
  \<open>all_cols = df.columns.tolist()\<close>, then
  \<open>[c for c in all_cols if c != 'Primary_Key']\<close> when the key label occurs, and
  \<open>all_cols\<close> otherwise.
\<close>

definition non_key_cols :: "'v dataframe \<Rightarrow> string list" where
  "non_key_cols df =
     (if ''Primary_Key'' \<in> set (columns df)
      then filter (\<lambda>c. c \<noteq> ''Primary_Key'') (columns df)
      else columns df)"

text \<open>
  The frames the analysis receives carry the label \<open>Primary_Key\<close>, pairwise different
  labels, and one cell per non-key column in every row. In such frames a column is known
  by its label as well as by its position; the cells of a row are addressed by position
  below.
\<close>

definition well_formed :: "'v dataframe \<Rightarrow> bool" where
  "well_formed df =
     (''Primary_Key'' \<in> set (columns df) \<and> distinct (columns df)
      \<and> list_all (\<lambda>r. length (snd r) = length (non_key_cols df))
            (rows df))"

text \<open>
  The range of \<open>for c in non_key_cols_new\<close>: every non-key label with its position.
\<close>

definition enumerate_cols :: "'v dataframe \<Rightarrow> (string \<times> nat) list" where
  "enumerate_cols df = zip (non_key_cols df) [0..<length (non_key_cols df)]"

subsection \<open>Element-wise operations of the library\<close>

text \<open>
  \<open>a == b\<close> on two cells is false as soon as one of them is null, also when both are;
  \<open>isnull\<close> and \<open>notnull\<close> test for null.
\<close>

definition eq_cell :: "'v cell \<Rightarrow> 'v cell \<Rightarrow> bool" where
  "eq_cell a b =
     (case a of None \<Rightarrow> False
      | Some x \<Rightarrow> (case b of None \<Rightarrow> False | Some y \<Rightarrow> x = y))"

definition isnull :: "'v cell \<Rightarrow> bool" where
  "isnull a = (a = None)"

definition notnull :: "'v cell \<Rightarrow> bool" where
  "notnull a = (a \<noteq> None)"

text \<open>
  \<open>.fillna('null').astype(str)\<close>: a null cell becomes the text \<open>null\<close>, any other cell
  the text of its value. The conversion \<open>str\<close> of a value to text is a parameter.
\<close>

definition fillna_null_astype_str :: "('v \<Rightarrow> string) \<Rightarrow> 'v cell \<Rightarrow> string" where
  "fillna_null_astype_str str a = (case a of None \<Rightarrow> ''null'' | Some x \<Rightarrow> str x)"

subsection \<open>Joins on the key\<close>

text \<open>The rows of a frame that carry a given key, in the frame's order.\<close>

definition key_matches :: "string \<Rightarrow> 'v row list \<Rightarrow> 'v row list" where
  "key_matches k rs = filter (\<lambda>r. fst r = k) rs"

text \<open>
  \<open>df.duplicated(subset='Primary_Key', keep=False)\<close> marks a row when its key occurs on
  another row of the same frame as well.
\<close>

definition duplicated :: "'v row list \<Rightarrow> 'v row \<Rightarrow> bool" where
  "duplicated rs r = (1 < length (key_matches (fst r) rs))"

datatype merge_ind = left_only | right_only | both

text \<open>
  \<open>left.merge(right[['Primary_Key']], on='Primary_Key', how='left', indicator=True)\<close>:
  every left row once per right row with its key, marked \<open>both\<close>; a left row whose key no
  right row has, once, marked \<open>left_only\<close>.
\<close>

definition merge_left_keys :: "'v row list \<Rightarrow> string list \<Rightarrow> ('v row \<times> merge_ind) list" where
  "merge_left_keys ls ks =
     concat (map (\<lambda>l.
       if filter (\<lambda>k. k = fst l) ks = [] then [(l, left_only)]
       else map (\<lambda>k. (l, both)) (filter (\<lambda>k. k = fst l) ks)) ls)"

section \<open>Extra and duplicate records\<close>

record 'v extra_and_duplicate =
  Extra_Records :: "'v row list"
  Duplicate_Records :: "'v row list"

definition table_message :: string where
  "table_message = ''Parameter 'table' must be either 'Old' or 'New'.''"

text \<open>
  \<open>get_extra_and_duplicate_records(df_new_filtered, df_old_filtered, table)\<close>. The two
  branches \<open>if table == 'Old'\<close> and \<open>elif table == 'New'\<close> have no \<open>else\<close>: past
  them the \<open>return\<close> would read unbound names.
\<close>

definition get_extra_and_duplicate_records ::
  "'v dataframe \<Rightarrow> 'v dataframe \<Rightarrow> string \<Rightarrow> error + 'v extra_and_duplicate" where
  "get_extra_and_duplicate_records df_new_filtered df_old_filtered table =
     (if table \<notin> set [''Old'', ''New''] then Inl (ValueError table_message)
      else if table = ''Old'' then
        Inr \<lparr>Extra_Records =
               map fst (filter (\<lambda>p. snd p = left_only)
                 (merge_left_keys (rows df_old_filtered) (map fst (rows df_new_filtered)))),
             Duplicate_Records =
               filter (duplicated (rows df_old_filtered)) (rows df_old_filtered)\<rparr>
      else if table = ''New'' then
        Inr \<lparr>Extra_Records =
               map fst (filter (\<lambda>p. snd p = left_only)
                 (merge_left_keys (rows df_new_filtered) (map fst (rows df_old_filtered)))),
             Duplicate_Records =
               filter (duplicated (rows df_new_filtered)) (rows df_new_filtered)\<rparr>
      else Inl UnboundLocalError)"

section \<open>Positional column alignment and the outer join\<close>

text \<open>
  \<open>rename_map = {old_col: new_col for old_col, new_col in zip(non_key_cols_old,
  non_key_cols_new)}\<close>: a dictionary built from the pairs in order, a later pair
  replacing an earlier one with the same key.
\<close>

definition rename_map :: "string list \<Rightarrow> string list \<Rightarrow> string \<Rightarrow> string option" where
  "rename_map non_key_cols_old non_key_cols_new =
     map_of (rev (zip non_key_cols_old non_key_cols_new))"

text \<open>
  \<open>df.rename(columns=rename_map)\<close> relabels every column the dictionary has and keeps
  the other labels; the rows are untouched.
\<close>

definition rename :: "(string \<Rightarrow> string option) \<Rightarrow> 'v dataframe \<Rightarrow> 'v dataframe" where
  "rename m df =
     df\<lparr>columns := map (\<lambda>c. case m c of None \<Rightarrow> c | Some c' \<Rightarrow> c') (columns df)\<rparr>"

text \<open>
  A row of the outer merge: the key, the cells of the columns \<open>c_new\<close> and of the columns
  \<open>c_old\<close> in the order of the non-key columns \<open>c\<close>, and the column \<open>_merge\<close>.
\<close>

record 'v merged_row =
  Primary_Key :: string
  cells_new :: "'v cell list"
  cells_old :: "'v cell list"
  indicator :: merge_ind

text \<open>
  \<open>left.merge(right, on='Primary_Key', how='outer', indicator=True, suffixes=('_new',
  '_old'))\<close>. A left row joins every right row with its key (\<open>both\<close>); a left row
  whose key no right row has appears once with null right cells (\<open>left_only\<close>); a right
  row whose key no left row has appears once with null left cells (\<open>right_only\<close>). The
  order in which the library lists the keys is not modelled: the rows are given left rows
  first, and the properties below concern the rows, not their order. The cells are those
  of the two frames; the types under which the library stores the columns of the merge
  are described with the detailed mismatched records, where the cells are printed.
\<close>

definition merge_outer :: "'v dataframe \<Rightarrow> 'v dataframe \<Rightarrow> 'v merged_row list" where
  "merge_outer left right =
     concat (map (\<lambda>l.
       if key_matches (fst l) (rows right) = []
       then [\<lparr>Primary_Key = fst l, cells_new = snd l,
              cells_old = replicate (length (non_key_cols right)) None,
              indicator = left_only\<rparr>]
       else map (\<lambda>r. \<lparr>Primary_Key = fst l, cells_new = snd l, cells_old = snd r,
                       indicator = both\<rparr>)
              (key_matches (fst l) (rows right))) (rows left))
     @ map (\<lambda>r. \<lparr>Primary_Key = fst r,
                   cells_new = replicate (length (non_key_cols left)) None,
                   cells_old = snd r, indicator = right_only\<rparr>)
         (filter (\<lambda>r. key_matches (fst r) (rows left) = []) (rows right))"

text \<open>
  The labels of a merge on the key with \<open>suffixes=('_new', '_old')\<close>: the left labels,
  then the right labels other than the key; a non-key label that both frames have takes
  the suffix of its side. With \<open>indicator=True\<close> the label \<open>_merge\<close> follows.
\<close>

definition merged_columns :: "'v dataframe \<Rightarrow> 'v dataframe \<Rightarrow> string list" where
  "merged_columns left right =
     map (\<lambda>c. if c \<noteq> ''Primary_Key'' \<and> c \<in> set (columns right) then c @ ''_new'' else c)
       (columns left)
     @ map (\<lambda>c. if c \<in> set (columns left) then c @ ''_old'' else c)
         (filter (\<lambda>c. c \<noteq> ''Primary_Key'') (columns right))"

text \<open>
  The test \<open>col_new in merged.columns and col_old in merged.columns\<close> for a non-key
  label \<open>c\<close>.
\<close>

definition has_both_columns :: "string list \<Rightarrow> string \<Rightarrow> bool" where
  "has_both_columns merged_cols c =
     (c @ ''_new'' \<in> set merged_cols \<and> c @ ''_old'' \<in> set merged_cols)"

text \<open>
  \<open>left.merge(right, on='Primary_Key', how='inner')\<close>: every left row with every right
  row of its key, in the order of the left rows; the key, the left cells, the right cells.
\<close>

definition merge_inner ::
  "'v row list \<Rightarrow> 'v row list \<Rightarrow> (string \<times> 'v cell list \<times> 'v cell list) list" where
  "merge_inner ls rs =
     concat (map (\<lambda>l. map (\<lambda>r. (fst l, snd l, snd r)) (key_matches (fst l) rs)) ls)"

section \<open>Metrics summary\<close>

record metrics =
  OldDataTable_Record_Count :: nat
  NewDataTable_Record_Count :: nat
  OldDataTable_Extra_Records :: nat
  NewDataTable_Extra_Records :: nat
  OldDataTable_Duplicate_Records :: nat
  NewDataTable_Duplicate_Records :: nat
  Match_Record_Count :: nat
  Mismatch_Record_Count :: nat

definition count_message_filtered :: string where
  "count_message_filtered =
     ''Number of non-key columns differ between NewDataTable and OldDataTable filtered DataFrames.''"

definition count_message :: string where
  "count_message = ''Number of non-key columns differ between NewDataTable and OldDataTable.''"

text \<open>
  The mask of the metrics: \<open>full_match_mask = True\<close>, then for every non-key column
  \<open>full_match_mask &= (merged[col_new] == merged[col_old])\<close> when the merge has both
  columns, and \<open>full_match_mask &= False\<close> when it has not.
\<close>

definition metrics_full_match_mask ::
  "string list \<Rightarrow> (string \<times> nat) list \<Rightarrow> 'v merged_row \<Rightarrow> bool" where
  "metrics_full_match_mask merged_cols cs r =
     fold (\<lambda>ci m.
       if has_both_columns merged_cols (fst ci)
       then m \<and> eq_cell (cells_new r ! snd ci) (cells_old r ! snd ci)
       else m \<and> False) cs True"

definition compare_primary_keys_and_rows_by_position ::
  "'v dataframe \<Rightarrow> 'v dataframe \<Rightarrow> error + metrics" where
  "compare_primary_keys_and_rows_by_position df_new_filtered df_old_filtered =
     (if length (non_key_cols df_new_filtered) \<noteq> length (non_key_cols df_old_filtered)
      then Inl (ValueError count_message_filtered)
      else
        let df_old_renamed =
              rename (rename_map (non_key_cols df_old_filtered) (non_key_cols df_new_filtered))
                df_old_filtered;
            merged = merge_outer df_new_filtered df_old_renamed;
            both_mask = (\<lambda>r. indicator r = both);
            full_match_mask =
              metrics_full_match_mask (merged_columns df_new_filtered df_old_renamed @ [''_merge''])
                (enumerate_cols df_new_filtered);
            left_only_count = length (filter (\<lambda>r. indicator r = left_only) merged);
            right_only_count = length (filter (\<lambda>r. indicator r = right_only) merged);
            both_mismatch_count =
              length (filter (\<lambda>r. both_mask r \<and> \<not> full_match_mask r) merged)
        in Inr \<lparr>OldDataTable_Record_Count = length (rows df_old_renamed),
                NewDataTable_Record_Count = length (rows df_new_filtered),
                OldDataTable_Extra_Records =
                  length (filter (\<lambda>r. indicator r = right_only) merged),
                NewDataTable_Extra_Records =
                  length (filter (\<lambda>r. indicator r = left_only) merged),
                OldDataTable_Duplicate_Records =
                  length (filter (duplicated (rows df_old_renamed)) (rows df_old_renamed)),
                NewDataTable_Duplicate_Records =
                  length (filter (duplicated (rows df_new_filtered)) (rows df_new_filtered)),
                Match_Record_Count =
                  length (filter (\<lambda>r. both_mask r \<and> full_match_mask r) merged),
                Mismatch_Record_Count =
                  left_only_count + right_only_count + both_mismatch_count\<rparr>)"

section \<open>Column summary\<close>

record column_summary_row =
  Column_Name :: string
  Matches :: nat
  Mismatches :: nat
  Not_Null_Not_Null :: nat
  Not_Null_Null :: nat
  Null_Not_Null :: nat
  Null_Null :: nat

text \<open>
  \<open>matches = (merged[col_new] == merged[col_old]) | (merged[col_new].isnull() &
  merged[col_old].isnull())\<close>, for the column at position \<open>i\<close>.
\<close>

definition matches :: "nat \<Rightarrow> 'v merged_row \<Rightarrow> bool" where
  "matches i r =
     (eq_cell (cells_new r ! i) (cells_old r ! i)
      \<or> (isnull (cells_new r ! i) \<and> isnull (cells_old r ! i)))"

text \<open>
  The body of the loop over the non-key columns: one row of the summary, filled with zeros
  when the merge lacks one of the two columns.
\<close>

definition summarize_column ::
  "string list \<Rightarrow> 'v merged_row list \<Rightarrow> string \<times> nat \<Rightarrow> column_summary_row" where
  "summarize_column merged_cols merged ci =
     (let c = fst ci; i = snd ci;
          mismatches = (\<lambda>r. \<not> matches i r);
          mismatched_rows = filter mismatches merged;
          not_null_not_null =
            (\<lambda>r. notnull (cells_new r ! i) \<and> notnull (cells_old r ! i));
          not_null_null = (\<lambda>r. notnull (cells_new r ! i) \<and> isnull (cells_old r ! i));
          null_not_null = (\<lambda>r. isnull (cells_new r ! i) \<and> notnull (cells_old r ! i));
          null_null = (\<lambda>r. isnull (cells_new r ! i) \<and> isnull (cells_old r ! i))
      in if \<not> has_both_columns merged_cols c
         then \<lparr>Column_Name = c, Matches = 0, Mismatches = 0, Not_Null_Not_Null = 0,
                Not_Null_Null = 0, Null_Not_Null = 0, Null_Null = 0\<rparr>
         else
         \<lparr>Column_Name = c,
          Matches = length (filter (matches i) merged),
          Mismatches = length (filter mismatches merged),
          Not_Null_Not_Null = length (filter not_null_not_null mismatched_rows),
          Not_Null_Null = length (filter not_null_null mismatched_rows),
          Null_Not_Null = length (filter null_not_null mismatched_rows),
          Null_Null = length (filter null_null merged)\<rparr>)"

definition generate_column_summary ::
  "'v dataframe \<Rightarrow> 'v dataframe \<Rightarrow> error + column_summary_row list" where
  "generate_column_summary df_new_filtered df_old_filtered =
     (if length (non_key_cols df_new_filtered) \<noteq> length (non_key_cols df_old_filtered)
      then Inl (ValueError count_message)
      else
        let df_old_renamed =
              rename (rename_map (non_key_cols df_old_filtered) (non_key_cols df_new_filtered))
                df_old_filtered;
            merged = merge_outer df_new_filtered df_old_renamed
        in Inr (map (summarize_column
                       (merged_columns df_new_filtered df_old_renamed @ [''_merge'']) merged)
                  (enumerate_cols df_new_filtered)))"

section \<open>Matching records\<close>

text \<open>
  The mask of the matching records, over the rows of the inner merge:
  \<open>full_match_mask &= (merged[col_new] == merged[col_old]) | (merged[col_new].isnull() &
  merged[col_old].isnull())\<close> for every non-key column of which the merge has both
  columns, \<open>full_match_mask &= False\<close> for the others.
\<close>

definition matching_full_match_mask ::
  "string list \<Rightarrow> (string \<times> nat) list \<Rightarrow> string \<times> 'v cell list \<times> 'v cell list \<Rightarrow> bool" where
  "matching_full_match_mask merged_cols cs r =
     fold (\<lambda>ci m.
       if has_both_columns merged_cols (fst ci)
       then m \<and> (eq_cell (fst (snd r) ! snd ci) (snd (snd r) ! snd ci)
                  \<or> (isnull (fst (snd r) ! snd ci) \<and> isnull (snd (snd r) ! snd ci)))
       else m \<and> False) cs True"

text \<open>
  The result keeps the key and the columns \<open>c_new\<close>; it is given as rows, without the
  labels the final relabelling produces.
\<close>

definition get_matching_records :: "'v dataframe \<Rightarrow> 'v dataframe \<Rightarrow> error + 'v row list" where
  "get_matching_records df_new_filtered df_old_filtered =
     (if length (non_key_cols df_new_filtered) \<noteq> length (non_key_cols df_old_filtered)
      then Inl (ValueError count_message)
      else
        let df_old_renamed =
              rename (rename_map (non_key_cols df_old_filtered) (non_key_cols df_new_filtered))
                df_old_filtered;
            merged = merge_inner (rows df_new_filtered) (rows df_old_renamed);
            matched_records =
              filter (matching_full_match_mask (merged_columns df_new_filtered df_old_renamed)
                        (enumerate_cols df_new_filtered)) merged
        in Inr (map (\<lambda>r. (fst r, fst (snd r))) matched_records))"

section \<open>Detailed mismatched records\<close>

text \<open>
  A cell of the result is either a cell taken over from the new side or a text built by
  the view.
\<close>

datatype 'v detail_cell = Plain "'v cell" | Text string

text \<open>
  The library stores every column of a frame under one type, and the outer merge stores
  a column of integers as a column of floating-point numbers as soon as it fills a row of
  that column with null: the columns \<open>c_new\<close> when some record is present in the old frame
  only, the columns \<open>c_old\<close> when some record is present in the new frame only. The
  conversion \<open>astype_float\<close> of a cell is a parameter; it leaves the cells of a column of any
  other type as they are. The merged frame as stored:
\<close>

definition stored :: "('v \<Rightarrow> 'v) \<Rightarrow> 'v merged_row list \<Rightarrow> 'v merged_row list" where
  "stored astype_float merged =
     map (\<lambda>r. r\<lparr>cells_new :=
                   if list_ex (\<lambda>r'. indicator r' = right_only) merged
                   then map (map_option astype_float) (cells_new r) else cells_new r,
                 cells_old :=
                   if list_ex (\<lambda>r'. indicator r' = left_only) merged
                   then map (map_option astype_float) (cells_old r) else cells_old r\<rparr>)
       merged"

text \<open>
  \<open>merged[col_new] == merged[col_old]\<close> on the stored columns: false as soon as one cell is
  null; on two values it is the comparison \<open>eq\<close> of the library for the types of the two
  columns, a parameter.
\<close>

definition eq_stored :: "('v \<Rightarrow> 'v \<Rightarrow> bool) \<Rightarrow> 'v cell \<Rightarrow> 'v cell \<Rightarrow> bool" where
  "eq_stored eq a b =
     (case a of None \<Rightarrow> False
      | Some x \<Rightarrow> (case b of None \<Rightarrow> False | Some y \<Rightarrow> eq x y))"

text \<open>
  \<open>equal_mask\<close>, \<open>both_null_mask\<close> and \<open>mismatch_mask = ~(equal_mask | both_null_mask)\<close>
  for the column at position \<open>i\<close>.
\<close>

definition mismatch_mask :: "('v \<Rightarrow> 'v \<Rightarrow> bool) \<Rightarrow> nat \<Rightarrow> 'v merged_row \<Rightarrow> bool" where
  "mismatch_mask eq i r =
     (\<not> (eq_stored eq (cells_new r ! i) (cells_old r ! i)
         \<or> (isnull (cells_new r ! i) \<and> isnull (cells_old r ! i))))"

text \<open>\<open>mismatch_row_mask = False\<close>, then \<open>mismatch_row_mask | mismatch_mask\<close> per column.\<close>

definition mismatch_row_mask ::
  "('v \<Rightarrow> 'v \<Rightarrow> bool) \<Rightarrow> nat list \<Rightarrow> 'v merged_row \<Rightarrow> bool" where
  "mismatch_row_mask eq cs r = fold (\<lambda>i m. m \<or> mismatch_mask eq i r) cs False"

text \<open>
  The three loops over the columns, seen on one row of the merge: the first writes every
  column (the text on a mismatched cell, the new value on the others), the second
  overwrites every column of a row marked \<open>left_only\<close>, the third every column of a row
  marked \<open>right_only\<close>. The text \<open>str\<close> of a stored value is a parameter. When the merge
  lacks \<open>c_new\<close> or \<open>c_old\<close> for some column, the first loop reads the absent column in its
  branch for that case, or else the second or third loop reads it: the run ends in a
  \<open>KeyError\<close>.
\<close>

definition annotate_mismatches ::
  "('v \<Rightarrow> 'v \<Rightarrow> bool) \<Rightarrow> ('v \<Rightarrow> string) \<Rightarrow> nat list \<Rightarrow> 'v merged_row
     \<Rightarrow> 'v detail_cell list" where
  "annotate_mismatches eq str cs r =
     map (\<lambda>i. if mismatch_mask eq i r
               then Text (''O: '' @ fillna_null_astype_str str (cells_old r ! i)
                          @ '', N: '' @ fillna_null_astype_str str (cells_new r ! i))
               else Plain (cells_new r ! i)) cs"

definition annotate_only_new ::
  "('v \<Rightarrow> string) \<Rightarrow> nat list \<Rightarrow> 'v merged_row \<Rightarrow> 'v detail_cell list \<Rightarrow> 'v detail_cell list" where
  "annotate_only_new str cs r out =
     (if indicator r = left_only
      then map (\<lambda>i. Text (''O: null, N: '' @ fillna_null_astype_str str (cells_new r ! i))) cs
      else out)"

definition annotate_only_old ::
  "('v \<Rightarrow> string) \<Rightarrow> nat list \<Rightarrow> 'v merged_row \<Rightarrow> 'v detail_cell list \<Rightarrow> 'v detail_cell list" where
  "annotate_only_old str cs r out =
     (if indicator r = right_only
      then map (\<lambda>i. Text (''O: '' @ fillna_null_astype_str str (cells_old r ! i)
                          @ '', N: null'')) cs
      else out)"

definition get_detailed_mismatched_records ::
  "('v \<Rightarrow> 'v \<Rightarrow> bool) \<Rightarrow> ('v \<Rightarrow> 'v) \<Rightarrow> ('v \<Rightarrow> string) \<Rightarrow> 'v dataframe \<Rightarrow> 'v dataframe
     \<Rightarrow> error + (string \<times> 'v detail_cell list) list" where
  "get_detailed_mismatched_records eq astype_float str df_new_filtered df_old_filtered =
     (if length (non_key_cols df_new_filtered) \<noteq> length (non_key_cols df_old_filtered)
      then Inl (ValueError count_message)
      else
        let df_old_renamed =
              rename (rename_map (non_key_cols df_old_filtered) (non_key_cols df_new_filtered))
                df_old_filtered;
            merged = stored astype_float (merge_outer df_new_filtered df_old_renamed);
            merged_cols = merged_columns df_new_filtered df_old_renamed @ [''_merge''];
            cs = map snd (enumerate_cols df_new_filtered);
            only_new_mask = (\<lambda>r. indicator r = left_only);
            only_old_mask = (\<lambda>r. indicator r = right_only);
            detailed_mismatches =
              filter (\<lambda>r. mismatch_row_mask eq cs r \<or> only_new_mask r \<or> only_old_mask r)
                merged
        in if \<not> list_all (has_both_columns merged_cols) (non_key_cols df_new_filtered)
           then Inl KeyError
           else Inr (map (\<lambda>r. (Primary_Key r,
                           annotate_only_old str cs r
                             (annotate_only_new str cs r (annotate_mismatches eq str cs r))))
                  detailed_mismatches))"

subsection \<open>Integers, floating-point numbers and texts as the library has them\<close>












section \<open>Per-column comparison sheets\<close>

text \<open>
  A row of a sheet: the key, the expected (old) text, the actual (new) text and the
  comparison text. The result is a dictionary from the column label to its sheet, given
  as the list of its entries in the order of insertion. The function raises no error of
  its own; its result has the type of the other views' results so that the views can be
  compared.
\<close>

type_synonym sheet = "(string \<times> string \<times> string \<times> string) list"

definition compare_columns_and_generate_sheets ::
  "('v \<Rightarrow> string) \<Rightarrow> 'v dataframe \<Rightarrow> 'v dataframe \<Rightarrow> error + (string \<times> sheet) list" where
  "compare_columns_and_generate_sheets str df_new_filtered df_old_filtered =
     (let new_columns = filter (\<lambda>col. col \<noteq> ''Primary_Key'') (columns df_new_filtered);
          old_columns = filter (\<lambda>col. col \<noteq> ''Primary_Key'') (columns df_old_filtered)
      in if length new_columns \<noteq> length old_columns then Inr []
         else
           let df_old_filtered_renamed =
                 rename (rename_map old_columns new_columns) df_old_filtered
           in Inr (concat (map (\<lambda>ci.
                if fst ci \<notin> set (columns df_old_filtered_renamed) then []
                else [(fst ci,
                       map (\<lambda>m.
                         let expected = fillna_null_astype_str str (fst (snd m) ! snd ci);
                             actual = fillna_null_astype_str str (snd (snd m) ! snd ci)
                         in (fst m, expected, actual,
                             ''E: '' @ expected @ '', A: '' @ actual))
                         (merge_inner (rows df_old_filtered_renamed) (rows df_new_filtered)))])
              (zip new_columns [0..<length new_columns]))))"

section \<open>The joined records of a run\<close>

text \<open>
  Every view that joins does so on the new frame and the old frame relabelled by position;
  the outer merge of the two is the set of joined records of the run.
\<close>

definition joined_records :: "'v dataframe \<Rightarrow> 'v dataframe \<Rightarrow> 'v merged_row list" where
  "joined_records df_new df_old =
     merge_outer df_new
       (rename (rename_map (non_key_cols df_old) (non_key_cols df_new)) df_old)"

text \<open>The labels of that merge, the indicator's included.\<close>

definition joined_columns :: "'v dataframe \<Rightarrow> 'v dataframe \<Rightarrow> string list" where
  "joined_columns df_new df_old =
     merged_columns df_new
       (rename (rename_map (non_key_cols df_old) (non_key_cols df_new)) df_old) @ [''_merge'']"

section \<open>The row-level rule and the two record views, as specified\<close>

text \<open>
  The rule of the specification for one cell: the new value equals the old value, or both
  are null.
\<close>

definition null_aware_equal :: "'v cell \<Rightarrow> 'v cell \<Rightarrow> bool" where
  "null_aware_equal new_value old_value =
     (case new_value of None \<Rightarrow> old_value = None | Some x \<Rightarrow> old_value = Some x)"

text \<open>
  A joined record is a full match when it is present on both sides and every non-key
  column satisfies the rule. The matching-records view is the full matches, each as the key
  with the new-side cells. The detailed-mismatch view is the records that are not full
  matches: on a record of both sides a cell that satisfies the rule carries the new value
  and any other cell the text \<open>O: old, N: new\<close>; on a one-sided record every cell carries
  that text with \<open>null\<close> for the absent side.
\<close>

definition full_match :: "nat \<Rightarrow> 'v merged_row \<Rightarrow> bool" where
  "full_match n r =
     (indicator r = both
      \<and> list_all (\<lambda>i. null_aware_equal (cells_new r ! i) (cells_old r ! i)) [0..<n])"








section \<open>Example frames\<close>






definition scenario_new :: "int dataframe" where
  "scenario_new = \<lparr>columns = [''Primary_Key'', ''y''], rows = [(''A'', [Some 5])]\<rparr>"

definition scenario_old :: "int dataframe" where
  "scenario_old =
     \<lparr>columns = [''Primary_Key'', ''y''], rows = [(''A'', [Some 5]), (''A'', [Some 6])]\<rparr>"

definition mixed_new :: "string dataframe" where
  "mixed_new =
     \<lparr>columns = [''Primary_Key'', ''x'', ''y''],
      rows = [(''A'', [Some ''1'', Some ''2'']), (''C'', [None, Some ''3'']),
              (''D'', [Some ''7'', None])]\<rparr>"

definition mixed_old :: "string dataframe" where
  "mixed_old =
     \<lparr>columns = [''Primary_Key'', ''p'', ''q''],
      rows = [(''A'', [Some ''1'', Some ''9'']), (''B'', [Some ''4'', None]),
              (''D'', [Some ''7'', None])]\<rparr>"

definition nulls_new :: "int dataframe" where
  "nulls_new = \<lparr>columns = [''Primary_Key'', ''x''], rows = [(''A'', [None])]\<rparr>"

definition nulls_old :: "int dataframe" where
  "nulls_old = \<lparr>columns = [''Primary_Key'', ''x''], rows = [(''A'', [None])]\<rparr>"

definition narrow_new :: "string dataframe" where
  "narrow_new =
     \<lparr>columns = [''Primary_Key'', ''a'', ''b'', ''c''],
      rows = [(''A'', [Some ''1'', Some ''2'', Some ''3''])]\<rparr>"

definition wide_old :: "string dataframe" where
  "wide_old =
     \<lparr>columns = [''Primary_Key'', ''a'', ''b'', ''c'', ''d''],
      rows = [(''A'', [Some ''1'', Some ''2'', Some ''3'', Some ''4''])]\<rparr>"

section \<open>Properties\<close>

subsection \<open>Joins\<close>

lemma merge_left_keys_left_only:
  "map fst (filter (\<lambda>p. snd p = left_only) (merge_left_keys ls ks)) =
   filter (\<lambda>l. fst l \<notin> set ks) ls"
proof (induction ls)
  case Nil
  show ?case by (simp add: merge_left_keys_def)
next
  case (Cons l ls)
  have step: "merge_left_keys (l # ls) ks =
      (if filter (\<lambda>k. k = fst l) ks = [] then [(l, left_only)]
       else map (\<lambda>k. (l, both)) (filter (\<lambda>k. k = fst l) ks)) @ merge_left_keys ls ks"
    by (simp add: merge_left_keys_def)
  have absent: "(filter (\<lambda>k. k = fst l) ks = []) = (fst l \<notin> set ks)"
    by (auto simp: filter_empty_conv)
  show ?case
  proof (cases "fst l \<in> set ks")
    case True
    then show ?thesis using Cons.IH step absent by (simp add: o_def)
  next
    case False
    then show ?thesis using Cons.IH step absent by simp
  qed
qed

lemma key_matches_count:
  "length (key_matches k rs) = count_list (map fst rs) k"
  by (induction rs) (auto simp: key_matches_def)


lemma non_key_cols_filter:
  "non_key_cols df = filter (\<lambda>c. c \<noteq> ''Primary_Key'') (columns df)"
proof (cases "''Primary_Key'' \<in> set (columns df)")
  case True
  then show ?thesis by (simp add: non_key_cols_def)
next
  case False
  then have "filter (\<lambda>c. c \<noteq> ''Primary_Key'') (columns df) = columns df"
    by (intro filter_True) auto
  with False show ?thesis by (simp add: non_key_cols_def)
qed

lemma length_filter_indicator:
  "length (ms :: 'v merged_row list) =
     length (filter (\<lambda>r. indicator r = both) ms)
     + length (filter (\<lambda>r. indicator r = left_only) ms)
     + length (filter (\<lambda>r. indicator r = right_only) ms)"
proof (induction ms)
  case Nil
  show ?case by simp
next
  case (Cons r ms)
  then show ?case by (cases "indicator r") simp_all
qed

lemma length_filter_split:
  "length (filter (\<lambda>r. P r \<and> Q r) xs) + length (filter (\<lambda>r. P r \<and> \<not> Q r) xs)
     = length (filter P xs)"
  by (induction xs) auto

lemma rename_map_key:
  assumes "''Primary_Key'' \<notin> set xs"
  shows "rename_map xs ys ''Primary_Key'' = None"
proof -
  have "''Primary_Key'' \<notin> fst ` set (rev (zip xs ys))"
    using assms by (auto dest: set_zip_leftD)
  then show ?thesis by (simp add: rename_map_def map_of_eq_None_iff)
qed

lemma rename_map_non_key:
  assumes "length xs = length ys" and "c \<in> set xs"
  shows "\<exists>c'. rename_map xs ys c = Some c' \<and> c' \<in> set ys"
proof -
  have "map fst (zip xs ys) = xs" using assms(1) by simp
  then have "c \<in> fst ` set (rev (zip xs ys))"
    using assms(2) by (metis list.set_map set_rev)
  then have "map_of (rev (zip xs ys)) c \<noteq> None"
    by (simp add: map_of_eq_None_iff)
  then obtain c' where some: "map_of (rev (zip xs ys)) c = Some c'"
    by blast
  then have "(c, c') \<in> set (zip xs ys)"
    by (auto dest: map_of_SomeD)
  then have "c' \<in> set ys" by (rule set_zip_rightD)
  with some show ?thesis by (simp add: rename_map_def)
qed

lemma length_non_key_cols_rename:
  assumes "length (non_key_cols df_new) = length (non_key_cols df_old)"
  shows "length (non_key_cols
           (rename (rename_map (non_key_cols df_old) (non_key_cols df_new)) df_old))
         = length (non_key_cols df_old)"
proof -
  let ?m = "rename_map (non_key_cols df_old) (non_key_cols df_new)"
  let ?f = "\<lambda>c. case ?m c of None \<Rightarrow> c | Some c' \<Rightarrow> c'"
  have new_no_key: "''Primary_Key'' \<notin> set (non_key_cols df_new)"
    by (simp add: non_key_cols_filter)
  have old_no_key: "''Primary_Key'' \<notin> set (non_key_cols df_old)"
    by (simp add: non_key_cols_filter)
  have other: "?f c \<noteq> ''Primary_Key''" if "c \<in> set (non_key_cols df_old)" for c
  proof -
    have "length (non_key_cols df_old) = length (non_key_cols df_new)"
      using assms by simp
    from rename_map_non_key [OF this that]
    obtain c' where "?m c = Some c'" and "c' \<in> set (non_key_cols df_new)"
      by blast
    with new_no_key show ?thesis by auto
  qed
  have same: "(?f c \<noteq> ''Primary_Key'') = (c \<noteq> ''Primary_Key'')"
    if "c \<in> set (columns df_old)" for c
  proof (cases "c = ''Primary_Key''")
    case True
    then show ?thesis using rename_map_key [OF old_no_key] by simp
  next
    case False
    with that have "c \<in> set (non_key_cols df_old)" by (simp add: non_key_cols_filter)
    from other [OF this] False show ?thesis by simp
  qed
  have shape: "non_key_cols (rename ?m df_old)
      = filter (\<lambda>c. c \<noteq> ''Primary_Key'') (map ?f (columns df_old))"
    by (simp add: non_key_cols_filter rename_def)
  have moved: "length (filter (\<lambda>c. c \<noteq> ''Primary_Key'') (map ?f (columns df_old)))
      = length (filter (\<lambda>c. ?f c \<noteq> ''Primary_Key'') (columns df_old))"
    by (simp add: filter_map o_def)
  have kept: "filter (\<lambda>c. ?f c \<noteq> ''Primary_Key'') (columns df_old)
      = filter (\<lambda>c. c \<noteq> ''Primary_Key'') (columns df_old)"
  proof (rule filter_cong [OF refl])
    fix c assume "c \<in> set (columns df_old)"
    then show "(?f c \<noteq> ''Primary_Key'') = (c \<noteq> ''Primary_Key'')" by (rule same)
  qed
  have "length (non_key_cols (rename ?m df_old))
      = length (filter (\<lambda>c. c \<noteq> ''Primary_Key'') (columns df_old))"
    by (simp only: shape moved kept)
  then show ?thesis by (simp only: non_key_cols_filter [of df_old])
qed

lemma rename_map_nth:
  assumes "length xs = length ys" and "distinct xs" and "i < length xs"
  shows "rename_map xs ys (xs ! i) = Some (ys ! i)"
proof -
  have keys: "distinct (map fst (rev (zip xs ys)))"
    using assms(1,2) by (simp add: rev_map [symmetric])
  have "(xs ! i, ys ! i) \<in> set (zip xs ys)"
    using assms(1,3) by (auto simp: set_zip)
  then have "(xs ! i, ys ! i) \<in> set (rev (zip xs ys))" by simp
  from map_of_is_SomeI [OF keys this] show ?thesis by (simp add: rename_map_def)
qed

lemma non_key_cols_rename:
  assumes "length (non_key_cols df_new) = length (non_key_cols df_old)"
    and "distinct (non_key_cols df_old)"
  shows "non_key_cols (rename (rename_map (non_key_cols df_old) (non_key_cols df_new)) df_old)
         = non_key_cols df_new"
proof -
  let ?m = "rename_map (non_key_cols df_old) (non_key_cols df_new)"
  let ?f = "\<lambda>c. case ?m c of None \<Rightarrow> c | Some c' \<Rightarrow> c'"
  have len: "length (non_key_cols df_old) = length (non_key_cols df_new)"
    using assms(1) by simp
  have new_no_key: "''Primary_Key'' \<notin> set (non_key_cols df_new)"
    by (simp add: non_key_cols_filter)
  have old_no_key: "''Primary_Key'' \<notin> set (non_key_cols df_old)"
    by (simp add: non_key_cols_filter)
  have same: "(?f c \<noteq> ''Primary_Key'') = (c \<noteq> ''Primary_Key'')"
    if "c \<in> set (columns df_old)" for c
  proof (cases "c = ''Primary_Key''")
    case True
    then show ?thesis using rename_map_key [OF old_no_key] by simp
  next
    case False
    with that have "c \<in> set (non_key_cols df_old)" by (simp add: non_key_cols_filter)
    from rename_map_non_key [OF len this]
    obtain c' where "?m c = Some c'" and "c' \<in> set (non_key_cols df_new)"
      by blast
    with new_no_key False show ?thesis by auto
  qed
  have "filter (\<lambda>c. ?f c \<noteq> ''Primary_Key'') (columns df_old)
      = filter (\<lambda>c. c \<noteq> ''Primary_Key'') (columns df_old)"
  proof (rule filter_cong [OF refl])
    fix c assume "c \<in> set (columns df_old)"
    then show "(?f c \<noteq> ''Primary_Key'') = (c \<noteq> ''Primary_Key'')" by (rule same)
  qed
  then have kept: "filter (\<lambda>c. ?f c \<noteq> ''Primary_Key'') (columns df_old)
      = non_key_cols df_old"
    by (rule trans [OF _ non_key_cols_filter [symmetric]])
  have relabelled: "columns (rename ?m df_old) = map ?f (columns df_old)"
    by (simp add: rename_def)
  have "non_key_cols (rename ?m df_old)
      = filter (\<lambda>c. c \<noteq> ''Primary_Key'') (columns (rename ?m df_old))"
    by (rule non_key_cols_filter)
  also have "\<dots> = filter (\<lambda>c. c \<noteq> ''Primary_Key'') (map ?f (columns df_old))"
    by (simp only: relabelled)
  also have "\<dots> = map ?f (filter (\<lambda>c. ?f c \<noteq> ''Primary_Key'') (columns df_old))"
    by (simp add: filter_map o_def)
  also have "\<dots> = map ?f (non_key_cols df_old)"
    by (simp only: kept)
  also have "\<dots> = non_key_cols df_new"
  proof (rule nth_equalityI)
    show "length (map ?f (non_key_cols df_old)) = length (non_key_cols df_new)"
      using len by simp
  next
    fix i assume "i < length (map ?f (non_key_cols df_old))"
    then have i: "i < length (non_key_cols df_old)" by simp
    from rename_map_nth [OF len assms(2) i]
    show "map ?f (non_key_cols df_old) ! i = non_key_cols df_new ! i"
      using i by simp
  qed
  finally show ?thesis .
qed

lemma has_both_columns_joined:
  assumes "length (non_key_cols df_new) = length (non_key_cols df_old)"
    and "distinct (non_key_cols df_old)"
    and "c \<in> set (non_key_cols df_new)"
  shows "has_both_columns
           (merged_columns df_new
              (rename (rename_map (non_key_cols df_old) (non_key_cols df_new)) df_old) @ tl_cols) c"
proof -
  let ?old = "rename (rename_map (non_key_cols df_old) (non_key_cols df_new)) df_old"
  have aligned: "filter (\<lambda>c. c \<noteq> ''Primary_Key'') (columns ?old) = non_key_cols df_new"
    using non_key_cols_rename [OF assms(1,2)] by (simp add: non_key_cols_filter)
  have in_new: "c \<noteq> ''Primary_Key'' \<and> c \<in> set (columns df_new)"
    using assms(3) by (simp add: non_key_cols_filter)
  have "c \<in> set (filter (\<lambda>c. c \<noteq> ''Primary_Key'') (columns ?old))"
    using assms(3) by (simp only: aligned)
  then have in_old: "c \<in> set (columns ?old)" by simp
  have left: "c @ ''_new'' \<in> set (map (\<lambda>c. if c \<noteq> ''Primary_Key'' \<and> c \<in> set (columns ?old)
                                      then c @ ''_new'' else c) (columns df_new))"
    using in_new in_old by (force simp: image_iff)
  have right: "c @ ''_old'' \<in> set (map (\<lambda>c. if c \<in> set (columns df_new) then c @ ''_old'' else c)
                       (filter (\<lambda>c. c \<noteq> ''Primary_Key'') (columns ?old)))"
    using in_new in_old by (force simp: image_iff)
  show ?thesis
    unfolding has_both_columns_def merged_columns_def
    using left right by simp
qed

lemma well_formed_distinct: "well_formed df \<Longrightarrow> distinct (non_key_cols df)"
  by (simp add: well_formed_def non_key_cols_filter)





lemma merge_outer_left_only:
  assumes "r \<in> set (merge_outer left right)" and "indicator r = left_only"
  shows "cells_old r = replicate (length (non_key_cols right)) None"
  using assms by (auto simp: merge_outer_def split: if_splits)

lemma merge_outer_right_only:
  assumes "r \<in> set (merge_outer left right)" and "indicator r = right_only"
  shows "cells_new r = replicate (length (non_key_cols left)) None"
  using assms by (auto simp: merge_outer_def split: if_splits)

lemmas frame_simps =
  non_key_cols_def enumerate_cols_def rename_def rename_map_def key_matches_def
  merge_outer_def merge_inner_def merge_left_keys_def duplicated_def joined_records_def
  merged_columns_def has_both_columns_def joined_columns_def
  eq_cell_def isnull_def notnull_def fillna_null_astype_str_def Let_def

subsection \<open>Extra and duplicate records\<close>

text \<open>
  Claim C4. For each side, \<open>Extra_Records\<close> is the rows of that side whose key occurs
  nowhere in the other side, in the side's order and each row once, whatever the number of
  rows sharing a key; \<open>Duplicate_Records\<close> is the rows of that side whose key occurs more
  than once within the side, every such row included.
\<close>

theorem extra_and_duplicate_records_exact:
  "get_extra_and_duplicate_records df_new df_old ''Old'' =
     Inr \<lparr>Extra_Records =
            filter (\<lambda>r. fst r \<notin> set (map fst (rows df_new))) (rows df_old),
          Duplicate_Records =
            filter (\<lambda>r. 1 < count_list (map fst (rows df_old)) (fst r)) (rows df_old)\<rparr>
   \<and> get_extra_and_duplicate_records df_new df_old ''New'' =
     Inr \<lparr>Extra_Records =
            filter (\<lambda>r. fst r \<notin> set (map fst (rows df_old))) (rows df_new),
          Duplicate_Records =
            filter (\<lambda>r. 1 < count_list (map fst (rows df_new)) (fst r)) (rows df_new)\<rparr>"
proof -
  have dup: "duplicated rs = (\<lambda>r. 1 < count_list (map fst rs) (fst r))"
    for rs :: "'a row list"
    by (rule ext) (simp add: duplicated_def key_matches_count)
  show ?thesis
    by (simp add: get_extra_and_duplicate_records_def merge_left_keys_left_only dup)
qed


subsection \<open>Metrics summary\<close>

lemma metrics_counts_complete:
  assumes "length (non_key_cols df_new) = length (non_key_cols df_old)"
  shows "\<exists>m. compare_primary_keys_and_rows_by_position df_new df_old = Inr m
     \<and> Match_Record_Count m + Mismatch_Record_Count m = length (joined_records df_new df_old)
     \<and> length (joined_records df_new df_old) =
         length (filter (\<lambda>r. indicator r = both) (joined_records df_new df_old))
         + length (filter (\<lambda>r. indicator r = left_only) (joined_records df_new df_old))
         + length (filter (\<lambda>r. indicator r = right_only) (joined_records df_new df_old))"
proof -
  let ?ms = "joined_records df_new df_old"
  let ?fm = "metrics_full_match_mask (joined_columns df_new df_old) (enumerate_cols df_new)"
  have split: "length (filter (\<lambda>r. indicator r = both \<and> ?fm r) ?ms)
      + length (filter (\<lambda>r. indicator r = both \<and> \<not> ?fm r) ?ms)
      = length (filter (\<lambda>r. indicator r = both) ?ms)"
    by (rule length_filter_split)
  have total: "length ?ms =
      length (filter (\<lambda>r. indicator r = both) ?ms)
      + length (filter (\<lambda>r. indicator r = left_only) ?ms)
      + length (filter (\<lambda>r. indicator r = right_only) ?ms)"
    by (rule length_filter_indicator)
  show ?thesis
    using assms split total
    by (simp add: compare_primary_keys_and_rows_by_position_def joined_records_def
        joined_columns_def Let_def)
qed

text \<open>
  Claim C3, at two frames whose only row has key \<open>A\<close> and a null cell on both sides.
  The frames have as many non-key columns, the outer join has one record, marked \<open>both\<close>,
  and under the rule of the specification it is a full match: the number of \<open>both\<close>
  records that are not full matches plus the new-only count plus the old-only count is
  0. The metrics report \<open>Mismatch Record Count = 1\<close> and \<open>Match Record Count = 0\<close>. The
  two counts still add up to the number of joined records.
\<close>

theorem metrics_mismatch_count_null_pair:
  "length (non_key_cols nulls_new) = length (non_key_cols nulls_old)
   \<and> joined_records nulls_new nulls_old =
       [\<lparr>Primary_Key = ''A'', cells_new = [None], cells_old = [None], indicator = both\<rparr>]
   \<and> length (filter (full_match (length (non_key_cols nulls_new)))
         (joined_records nulls_new nulls_old)) = 1
   \<and> length (filter (\<lambda>r. indicator r = both \<and> \<not> full_match (length (non_key_cols nulls_new)) r)
         (joined_records nulls_new nulls_old))
       + length (filter (\<lambda>r. indicator r = left_only) (joined_records nulls_new nulls_old))
       + length (filter (\<lambda>r. indicator r = right_only) (joined_records nulls_new nulls_old))
       = 0
   \<and> (\<exists>m. compare_primary_keys_and_rows_by_position nulls_new nulls_old = Inr m
        \<and> Match_Record_Count m = 0 \<and> Mismatch_Record_Count m = 1
        \<and> Match_Record_Count m + Mismatch_Record_Count m
            = length (joined_records nulls_new nulls_old))"
  by (simp add: compare_primary_keys_and_rows_by_position_def metrics_full_match_mask_def
      full_match_def null_aware_equal_def nulls_new_def nulls_old_def frame_simps)

text \<open>
  Claim C5. For \<open>old = [{pk: A, y: 5}, {pk: A, y: 6}]\<close> and \<open>new = [{pk: A, y: 5}]\<close>:
  the duplicate records of the old side are its two rows, its extra records are none, the
  outer join has two records for key \<open>A\<close>, the first a full match and the second not, and
  the metrics report one match and one mismatch.
\<close>

theorem duplicated_key_scenario:
  "get_extra_and_duplicate_records scenario_new scenario_old ''Old'' =
     Inr \<lparr>Extra_Records = [],
          Duplicate_Records = [(''A'', [Some 5]), (''A'', [Some 6])]\<rparr>
   \<and> joined_records scenario_new scenario_old =
     [\<lparr>Primary_Key = ''A'', cells_new = [Some 5], cells_old = [Some 5], indicator = both\<rparr>,
      \<lparr>Primary_Key = ''A'', cells_new = [Some 5], cells_old = [Some 6], indicator = both\<rparr>]
   \<and> map (metrics_full_match_mask (joined_columns scenario_new scenario_old)
            (enumerate_cols scenario_new))
       (joined_records scenario_new scenario_old) = [True, False]
   \<and> compare_primary_keys_and_rows_by_position scenario_new scenario_old =
     Inr \<lparr>OldDataTable_Record_Count = 2, NewDataTable_Record_Count = 1,
          OldDataTable_Extra_Records = 0, NewDataTable_Extra_Records = 0,
          OldDataTable_Duplicate_Records = 2, NewDataTable_Duplicate_Records = 0,
          Match_Record_Count = 1, Mismatch_Record_Count = 1\<rparr>"
  by (simp add: get_extra_and_duplicate_records_def compare_primary_keys_and_rows_by_position_def
      metrics_full_match_mask_def scenario_new_def scenario_old_def frame_simps)

text \<open>
  Claim C1, at two frames whose only row has key \<open>A\<close> and a null cell on both sides: the
  matching records hold the row, the column summary counts the cell as a match and the
  detailed view leaves the row out, while the metrics count the row as a mismatch and not
  as a match. The mask of the metrics compares with \<open>==\<close> alone, the other three views
  add the test for two nulls.
\<close>

theorem metrics_null_pair_not_matched:
  "compare_primary_keys_and_rows_by_position nulls_new nulls_old =
     Inr \<lparr>OldDataTable_Record_Count = 1, NewDataTable_Record_Count = 1,
          OldDataTable_Extra_Records = 0, NewDataTable_Extra_Records = 0,
          OldDataTable_Duplicate_Records = 0, NewDataTable_Duplicate_Records = 0,
          Match_Record_Count = 0, Mismatch_Record_Count = 1\<rparr>
   \<and> get_matching_records nulls_new nulls_old = Inr [(''A'', [None])]
   \<and> generate_column_summary nulls_new nulls_old =
     Inr [\<lparr>Column_Name = ''x'', Matches = 1, Mismatches = 0, Not_Null_Not_Null = 0,
           Not_Null_Null = 0, Null_Not_Null = 0, Null_Null = 1\<rparr>]
   \<and> get_detailed_mismatched_records eq astype_float str nulls_new nulls_old = Inr []"
  by (simp add: compare_primary_keys_and_rows_by_position_def get_matching_records_def
      generate_column_summary_def summarize_column_def matches_def
      get_detailed_mismatched_records_def mismatch_row_mask_def mismatch_mask_def
      stored_def eq_stored_def
      metrics_full_match_mask_def matching_full_match_mask_def
      nulls_new_def nulls_old_def frame_simps)

subsection \<open>Frames with different numbers of non-key columns\<close>

text \<open>
  Claim C2, as the code has it. When the numbers of non-key columns differ, the metrics,
  the column summary, the matching records and the detailed mismatched records each fail
  with the \<open>ValueError\<close> on the column counts, before any join; the per-column sheets do
  not fail: they return the empty dictionary.
\<close>

theorem column_count_mismatch_views:
  assumes "length (non_key_cols df_new) \<noteq> length (non_key_cols df_old)"
  shows "compare_primary_keys_and_rows_by_position df_new df_old
           = Inl (ValueError count_message_filtered)
     \<and> generate_column_summary df_new df_old = Inl (ValueError count_message)
     \<and> get_matching_records df_new df_old = Inl (ValueError count_message)
     \<and> get_detailed_mismatched_records eq astype_float str df_new df_old
           = Inl (ValueError count_message)
     \<and> compare_columns_and_generate_sheets str df_new df_old = Inr []"
  using assms
  by (simp add: compare_primary_keys_and_rows_by_position_def generate_column_summary_def
      get_matching_records_def get_detailed_mismatched_records_def
      compare_columns_and_generate_sheets_def non_key_cols_filter)

theorem column_count_mismatch_views_witness:
  "length (non_key_cols narrow_new) \<noteq> length (non_key_cols wide_old)
   \<and> compare_primary_keys_and_rows_by_position narrow_new wide_old
       = Inl (ValueError count_message_filtered)
   \<and> generate_column_summary narrow_new wide_old = Inl (ValueError count_message)
   \<and> get_matching_records narrow_new wide_old = Inl (ValueError count_message)
   \<and> get_detailed_mismatched_records (=) (\<lambda>v. v) (\<lambda>s. s) narrow_new wide_old
       = Inl (ValueError count_message)"
proof -
  have cols: "length (non_key_cols narrow_new) \<noteq> length (non_key_cols wide_old)"
    by (simp add: narrow_new_def wide_old_def non_key_cols_def)
  from column_count_mismatch_views
         [OF cols, where eq = "(=)" and astype_float = "\<lambda>v. v" and str = "\<lambda>s. s"] cols
  show ?thesis by simp
qed

theorem sheets_column_count_mismatch_counterexample:
  "length (non_key_cols narrow_new) \<noteq> length (non_key_cols wide_old)
   \<and> compare_columns_and_generate_sheets (\<lambda>s. s) narrow_new wide_old = Inr []
   \<and> (\<nexists>e. compare_columns_and_generate_sheets (\<lambda>s. s) narrow_new wide_old = Inl e)"
  by (simp add: compare_columns_and_generate_sheets_def narrow_new_def wide_old_def
      non_key_cols_def)

subsection \<open>The row-level rule in the record views\<close>













lemma mixed_well_formed: "well_formed mixed_new \<and> well_formed mixed_old"
  by (simp add: well_formed_def mixed_new_def mixed_old_def non_key_cols_def)

lemma mixed_cols: "length (non_key_cols mixed_new) = length (non_key_cols mixed_old)"
  by (simp add: mixed_new_def mixed_old_def non_key_cols_def)

lemma mixed_joined:
  "joined_records mixed_new mixed_old =
     [\<lparr>Primary_Key = ''A'', cells_new = [Some ''1'', Some ''2''],
       cells_old = [Some ''1'', Some ''9''], indicator = both\<rparr>,
      \<lparr>Primary_Key = ''C'', cells_new = [None, Some ''3''],
       cells_old = [None, None], indicator = left_only\<rparr>,
      \<lparr>Primary_Key = ''D'', cells_new = [Some ''7'', None],
       cells_old = [Some ''7'', None], indicator = both\<rparr>,
      \<lparr>Primary_Key = ''B'', cells_new = [None, None],
       cells_old = [Some ''4'', None], indicator = right_only\<rparr>]"
  by (simp add: mixed_new_def mixed_old_def frame_simps)














subsection \<open>Column summary\<close>

lemma summary_row:
  assumes "well_formed df_old"
    and "length (non_key_cols df_new) = length (non_key_cols df_old)"
    and "i < length (non_key_cols df_new)"
  shows "\<exists>s. generate_column_summary df_new df_old = Inr s
     \<and> length s = length (non_key_cols df_new)
     \<and> s ! i = summarize_column (joined_columns df_new df_old) (joined_records df_new df_old)
                 (non_key_cols df_new ! i, i)
     \<and> has_both_columns (joined_columns df_new df_old) (non_key_cols df_new ! i)"
proof -
  have "non_key_cols df_new ! i \<in> set (non_key_cols df_new)"
    using assms(3) by simp
  from has_both_columns_joined [OF assms(2) well_formed_distinct [OF assms(1)] this]
  have "has_both_columns (joined_columns df_new df_old) (non_key_cols df_new ! i)"
    by (simp add: joined_columns_def)
  then show ?thesis
    using assms(2,3)
    by (simp add: generate_column_summary_def Let_def enumerate_cols_def joined_records_def
        joined_columns_def)
qed

lemma one_sided_absent_cell:
  assumes "length (non_key_cols df_new) = length (non_key_cols df_old)"
    and "i < length (non_key_cols df_new)"
    and "r \<in> set (joined_records df_new df_old)"
  shows "indicator r = left_only \<Longrightarrow> cells_old r ! i = None"
    and "indicator r = right_only \<Longrightarrow> cells_new r ! i = None"
proof -
  let ?old = "rename (rename_map (non_key_cols df_old) (non_key_cols df_new)) df_old"
  have r: "r \<in> set (merge_outer df_new ?old)"
    using assms(3) by (simp add: joined_records_def)
  have width: "length (non_key_cols ?old) = length (non_key_cols df_new)"
    using length_non_key_cols_rename [OF assms(1)] assms(1) by simp
  show "cells_old r ! i = None" if "indicator r = left_only"
    using merge_outer_left_only [OF r that] width assms(2) by simp
  show "cells_new r ! i = None" if "indicator r = right_only"
    using merge_outer_right_only [OF r that] assms(2) by simp
qed

text \<open>
  Claim C9. In the column summary of well-formed frames with as many non-key columns, a
  joined record present on one side only whose cell in a column is null on that side is
  counted in \<open>Matches\<close> for that column and not in \<open>Mismatches\<close>: the absent side's cell
  is null too. So the \<open>Matches\<close> of that column are not zero.
\<close>

theorem one_sided_null_counts_as_match:
  assumes "well_formed df_new" and "well_formed df_old"
    and "length (non_key_cols df_new) = length (non_key_cols df_old)"
    and "i < length (non_key_cols df_new)"
    and "r \<in> set (joined_records df_new df_old)"
    and "(indicator r = left_only \<and> cells_new r ! i = None)
         \<or> (indicator r = right_only \<and> cells_old r ! i = None)"
  shows "\<exists>s. generate_column_summary df_new df_old = Inr s
     \<and> Matches (s ! i) = length (filter (matches i) (joined_records df_new df_old))
     \<and> Mismatches (s ! i)
         = length (filter (\<lambda>r. \<not> matches i r) (joined_records df_new df_old))
     \<and> r \<in> set (filter (matches i) (joined_records df_new df_old))
     \<and> r \<notin> set (filter (\<lambda>r. \<not> matches i r) (joined_records df_new df_old))
     \<and> 0 < Matches (s ! i)"
proof -
  obtain s where s: "generate_column_summary df_new df_old = Inr s"
    "s ! i = summarize_column (joined_columns df_new df_old) (joined_records df_new df_old)
               (non_key_cols df_new ! i, i)"
    "has_both_columns (joined_columns df_new df_old) (non_key_cols df_new ! i)"
    using summary_row [OF assms(2,3,4)] by blast
  have both_null: "cells_new r ! i = None \<and> cells_old r ! i = None"
    using assms(6) one_sided_absent_cell [OF assms(3,4,5)] by blast
  then have m: "matches i r" by (simp add: matches_def isnull_def)
  with assms(5) have counted: "r \<in> set (filter (matches i) (joined_records df_new df_old))"
    by simp
  then have "filter (matches i) (joined_records df_new df_old) \<noteq> []"
    by (metis empty_iff list.set(1))
  then have pos: "0 < length (filter (matches i) (joined_records df_new df_old))"
    by simp
  show ?thesis
    using s counted m pos by (simp add: summarize_column_def Let_def)
qed

theorem one_sided_null_counts_as_match_witness:
  "well_formed mixed_new \<and> well_formed mixed_old
   \<and> length (non_key_cols mixed_new) = length (non_key_cols mixed_old)
   \<and> 0 < length (non_key_cols mixed_new)
   \<and> \<lparr>Primary_Key = ''C'', cells_new = [None, Some ''3''], cells_old = [None, None],
       indicator = left_only\<rparr> \<in> set (joined_records mixed_new mixed_old)
   \<and> (\<exists>s. generate_column_summary mixed_new mixed_old = Inr s
        \<and> Matches (s ! 0) = 3 \<and> Mismatches (s ! 0) = 1)"
proof -
  let ?r = "\<lparr>Primary_Key = ''C'', cells_new = [None, Some ''3''],
             cells_old = [None :: string option, None], indicator = left_only\<rparr>"
  have wf_new: "well_formed mixed_new" and wf_old: "well_formed mixed_old"
    using mixed_well_formed by simp_all
  have pos: "0 < length (non_key_cols mixed_new)"
    by (simp add: mixed_new_def non_key_cols_def)
  have mem: "?r \<in> set (joined_records mixed_new mixed_old)"
    unfolding mixed_joined by simp
  have side: "(indicator ?r = left_only \<and> cells_new ?r ! 0 = None)
      \<or> (indicator ?r = right_only \<and> cells_old ?r ! 0 = None)"
    by simp
  have three: "length (filter (matches 0) (joined_records mixed_new mixed_old)) = 3"
    unfolding mixed_joined by (simp add: matches_def eq_cell_def isnull_def)
  have one: "length (filter (\<lambda>r. \<not> matches 0 r) (joined_records mixed_new mixed_old)) = 1"
    unfolding mixed_joined by (simp add: matches_def eq_cell_def isnull_def)
  from one_sided_null_counts_as_match [OF wf_new wf_old mixed_cols pos mem side] three one
  have "\<exists>s. generate_column_summary mixed_new mixed_old = Inr s
        \<and> Matches (s ! 0) = 3 \<and> Mismatches (s ! 0) = 1"
    by auto
  with mixed_cols pos mem wf_new wf_old show ?thesis by blast
qed

lemma summarize_column_partition:
  "Mismatches (summarize_column merged_cols ms ci)
     = Not_Null_Not_Null (summarize_column merged_cols ms ci)
       + Not_Null_Null (summarize_column merged_cols ms ci)
       + Null_Not_Null (summarize_column merged_cols ms ci)"
proof -
  have "length (filter (\<lambda>r. \<not> matches i r) xs)
      = length (filter (\<lambda>r. notnull (cells_new r ! i) \<and> notnull (cells_old r ! i))
          (filter (\<lambda>r. \<not> matches i r) xs))
        + length (filter (\<lambda>r. notnull (cells_new r ! i) \<and> isnull (cells_old r ! i))
            (filter (\<lambda>r. \<not> matches i r) xs))
        + length (filter (\<lambda>r. isnull (cells_new r ! i) \<and> notnull (cells_old r ! i))
            (filter (\<lambda>r. \<not> matches i r) xs))"
    for i and xs :: "'a merged_row list"
    by (induction xs) (auto simp: matches_def isnull_def notnull_def)
  then show ?thesis by (simp add: summarize_column_def Let_def)
qed

lemma length_filter_conj_le:
  "length (filter (\<lambda>r. P r \<and> Q r) xs) \<le> length (filter P xs)"
  by (induction xs) auto

lemma both_null_matches:
  "isnull (cells_new r ! i) \<and> isnull (cells_old r ! i) \<Longrightarrow> matches i r"
  by (simp add: matches_def)

text \<open>
  Claim C10. In the column summary of well-formed frames with as many non-key columns,
  every row has \<open>Mismatches = Not Null - Not Null + Not Null - Null + Null - Not Null\<close>;
  for every column \<open>Null - Null\<close> is the number of records that are matches with two null
  cells, hence at most \<open>Matches\<close>, and no mismatched record has two null cells in the
  column.
\<close>

theorem column_summary_mismatch_partition:
  assumes "well_formed df_new" and "well_formed df_old"
    and "length (non_key_cols df_new) = length (non_key_cols df_old)"
  shows "\<exists>s. generate_column_summary df_new df_old = Inr s
     \<and> length s = length (non_key_cols df_new)
     \<and> (\<forall>row \<in> set s. Mismatches row
           = Not_Null_Not_Null row + Not_Null_Null row + Null_Not_Null row)
     \<and> (\<forall>i < length (non_key_cols df_new).
           Null_Null (s ! i)
             = length (filter (\<lambda>r. matches i r
                          \<and> isnull (cells_new r ! i) \<and> isnull (cells_old r ! i))
                 (joined_records df_new df_old))
           \<and> Null_Null (s ! i) \<le> Matches (s ! i)
           \<and> (\<forall>r \<in> set (joined_records df_new df_old).
                 \<not> matches i r
                 \<longrightarrow> \<not> (isnull (cells_new r ! i) \<and> isnull (cells_old r ! i))))"
proof -
  let ?ms = "joined_records df_new df_old"
  let ?s = "map (summarize_column (joined_columns df_new df_old) ?ms) (enumerate_cols df_new)"
  have run: "generate_column_summary df_new df_old = Inr ?s"
    using assms(3)
    by (simp add: generate_column_summary_def Let_def joined_records_def joined_columns_def)
  have len: "length ?s = length (non_key_cols df_new)"
    by (simp add: enumerate_cols_def)
  have rows: "\<forall>row \<in> set ?s. Mismatches row
      = Not_Null_Not_Null row + Not_Null_Null row + Null_Not_Null row"
    using summarize_column_partition by auto
  have cols: "Null_Null (?s ! i)
        = length (filter (\<lambda>r. matches i r
                     \<and> isnull (cells_new r ! i) \<and> isnull (cells_old r ! i)) ?ms)
      \<and> Null_Null (?s ! i) \<le> Matches (?s ! i)
      \<and> (\<forall>r \<in> set ?ms. \<not> matches i r
            \<longrightarrow> \<not> (isnull (cells_new r ! i) \<and> isnull (cells_old r ! i)))"
    if i: "i < length (non_key_cols df_new)" for i
  proof -
    obtain s where s: "generate_column_summary df_new df_old = Inr s"
      "s ! i = summarize_column (joined_columns df_new df_old) ?ms (non_key_cols df_new ! i, i)"
      "has_both_columns (joined_columns df_new df_old) (non_key_cols df_new ! i)"
      using summary_row [OF assms(2,3) i] by blast
    from s(1) run have "s = ?s" by simp
    with s(2) have at: "?s ! i
        = summarize_column (joined_columns df_new df_old) ?ms (non_key_cols df_new ! i, i)"
      by simp
    have same: "filter (\<lambda>r. isnull (cells_new r ! i) \<and> isnull (cells_old r ! i)) ?ms
        = filter (\<lambda>r. matches i r
            \<and> isnull (cells_new r ! i) \<and> isnull (cells_old r ! i)) ?ms"
      by (rule filter_cong [OF refl]) (auto simp: matches_def)
    have le: "length (filter (\<lambda>r. matches i r
                 \<and> isnull (cells_new r ! i) \<and> isnull (cells_old r ! i)) ?ms)
        \<le> length (filter (matches i) ?ms)"
      by (rule length_filter_conj_le)
    show ?thesis
      unfolding at using same le both_null_matches s(3)
      by (auto simp: summarize_column_def Let_def)
  qed
  show ?thesis
    using run len rows cols by blast
qed

theorem column_summary_mismatch_partition_witness:
  "well_formed mixed_new \<and> well_formed mixed_old
   \<and> length (non_key_cols mixed_new) = length (non_key_cols mixed_old)
   \<and> (\<exists>s. generate_column_summary mixed_new mixed_old = Inr s
        \<and> length s = 2
        \<and> Mismatches (s ! 1)
            = Not_Null_Not_Null (s ! 1) + Not_Null_Null (s ! 1) + Null_Not_Null (s ! 1)
        \<and> Null_Null (s ! 1) = 2)"
proof -
  have wf_new: "well_formed mixed_new" and wf_old: "well_formed mixed_old"
    using mixed_well_formed by simp_all
  have two: "length (non_key_cols mixed_new) = 2"
    by (simp add: mixed_new_def non_key_cols_def)
  have nulls: "length (filter (\<lambda>r. matches 1 r
                   \<and> isnull (cells_new r ! 1) \<and> isnull (cells_old r ! 1))
                 (joined_records mixed_new mixed_old)) = 2"
    unfolding mixed_joined by (simp add: matches_def eq_cell_def isnull_def)
  from column_summary_mismatch_partition [OF wf_new wf_old mixed_cols]
  obtain s where s: "generate_column_summary mixed_new mixed_old = Inr s"
    "length s = length (non_key_cols mixed_new)"
    "\<forall>row \<in> set s. Mismatches row
        = Not_Null_Not_Null row + Not_Null_Null row + Null_Not_Null row"
    "\<forall>i < length (non_key_cols mixed_new).
        Null_Null (s ! i)
          = length (filter (\<lambda>r. matches i r
                       \<and> isnull (cells_new r ! i) \<and> isnull (cells_old r ! i))
              (joined_records mixed_new mixed_old))"
    by blast
  have "s ! 1 \<in> set s" using s(2) two by simp
  with s(3) have part: "Mismatches (s ! 1)
      = Not_Null_Not_Null (s ! 1) + Not_Null_Null (s ! 1) + Null_Not_Null (s ! 1)"
    by blast
  have "Null_Null (s ! 1) = 2" using s(4) two nulls by simp
  with s(1,2) two part mixed_cols wf_new wf_old show ?thesis by auto
qed

end
